theory Spec2Isabelle
  imports Main
begin

section \<open>JavaScript values used by the incidents service\<close>

text \<open>
  The service computes with JavaScript numbers and \<^verbatim>\<open>Date\<close> objects. Every number
  that occurs is either an integer (a time value in milliseconds, a count of hours or
  of days, a record id) or \<^verbatim>\<open>NaN\<close>, the time value of an invalid date. The only
  division, \<^verbatim>\<open>diffMs / (1000 * 60 * 60)\<close>, is followed at once by \<^verbatim>\<open>Math.floor\<close>;
  the pair is integer floor division. (On doubles the two agree as long as the
  difference of the time values is below \<open>2^53\<close> milliseconds, which holds whenever
  the report time is a date the \<^verbatim>\<open>datetime\<close> column can store.)
\<close>

datatype number = Finite int | NaN

datatype Date = Date (getTime: number)

fun number_minus :: "number \<Rightarrow> number \<Rightarrow> number" where
  "number_minus (Finite a) (Finite b) = Finite (a - b)"
| "number_minus _ _ = NaN"

fun Math_floor_div :: "number \<Rightarrow> int \<Rightarrow> number" where
  "Math_floor_div (Finite a) c = Finite (a div c)"
| "Math_floor_div NaN c = NaN"

fun number_gt :: "number \<Rightarrow> int \<Rightarrow> bool" where
  "number_gt (Finite a) c = (a > c)"
| "number_gt NaN c = False"

text \<open>Decimal rendering of a number inside a template literal.\<close>

definition digit_char :: "int \<Rightarrow> char" where
  "digit_char d = ''0123456789'' ! nat d"

function show_digits :: "int \<Rightarrow> string" where
  "show_digits n =
     (if n < 10 then [digit_char n]
      else show_digits (n div 10) @ [digit_char (n mod 10)])"
  by pat_completeness auto
termination
  by (relation "measure nat") auto

declare show_digits.simps [simp del]

definition show_int :: "int \<Rightarrow> string" where
  "show_int i = (if i < 0 then CHR ''-'' # show_digits (- i) else show_digits i)"

fun ToString :: "number \<Rightarrow> string" where
  "ToString (Finite i) = show_int i"
| "ToString NaN = ''NaN''"

text \<open>
  \<^verbatim>\<open>Array.prototype.join\<close>: the elements separated by \<open>sep\<close>; the empty string for
  an empty array.
\<close>

fun join :: "string \<Rightarrow> string list \<Rightarrow> string" where
  "join sep [] = []"
| "join sep [x] = x"
| "join sep (x # y # ys) = x @ sep @ join sep (y # ys)"

section \<open>Data model\<close>

text \<open>
  Modelled from the spec: the request types \<^verbatim>\<open>UpdateIncidentDto\<close> and
  \<^verbatim>\<open>CreateIncidentDto\<close>, which the service imports from \<^verbatim>\<open>dto/update-incident.dto\<close>
  and \<^verbatim>\<open>dto/create-incident.dto\<close>. Their properties are the ones the specification
  lists for a PATCH body (optional \<^verbatim>\<open>status\<close> and \<^verbatim>\<open>closedOn\<close>) and for a POST body
  (\<^verbatim>\<open>reportedBy\<close>, \<^verbatim>\<open>assignedTo\<close>, \<^verbatim>\<open>dateTime\<close>, \<^verbatim>\<open>description\<close> and an optional
  \<^verbatim>\<open>attachment\<close>), all strings. A property that is absent, \<^verbatim>\<open>undefined\<close> or
  \<^verbatim>\<open>null\<close> is \<open>None\<close>; a property holding a value is \<open>Some\<close> of it.

  The controller hands the request body to \<^verbatim>\<open>create\<close> as it arrives, and \<^verbatim>\<open>create\<close>
  spreads every property of it into the entity. So a creation request may carry,
  beside the declared properties, any other column of the entity: \<^verbatim>\<open>id\<close>,
  \<^verbatim>\<open>status\<close>, \<^verbatim>\<open>closedOn\<close>, \<^verbatim>\<open>totalTime\<close>, \<^verbatim>\<open>createdAt\<close>. Each is modelled with
  the type of the column it lands in. The four required properties are taken as
  present.
\<close>

record UpdateIncidentDto =
  status :: "string option"
  closedOn :: "string option"

record CreateIncidentDto =
  reportedBy :: string
  assignedTo :: string
  dateTime :: string
  description :: string
  attachment :: "string option"
  id :: "int option"
  status :: "string option"
  closedOn :: "Date option"
  totalTime :: "string option"
  createdAt :: "Date option"

text \<open>
  The entity instance that \<^verbatim>\<open>incidentsRepository.create\<close> builds from
  \<^verbatim>\<open>{...createIncidentDto, dateTime: new Date(createIncidentDto.dateTime)}\<close>: every
  property of the request, with \<^verbatim>\<open>dateTime\<close> replaced by a \<^verbatim>\<open>Date\<close>. A column the
  request does not carry is unset (\<open>None\<close>).
\<close>

record DeepPartialIncident =
  reportedBy :: string
  assignedTo :: string
  dateTime :: Date
  description :: string
  attachment :: "string option"
  id :: "int option"
  status :: "string option"
  closedOn :: "Date option"
  totalTime :: "string option"
  createdAt :: "Date option"

text \<open>The entity \<^verbatim>\<open>Incident\<close> of \<^verbatim>\<open>incident.entity.ts\<close>, as a row of the table.\<close>

record Incident =
  id :: int
  reportedBy :: string
  assignedTo :: string
  dateTime :: Date
  description :: string
  attachment :: "string option"
  status :: string
  closedOn :: "Date option"
  totalTime :: "string option"
  createdAt :: Date

datatype error = NotFoundException string

section \<open>The repository\<close>

text \<open>
  \<^verbatim>\<open>Repository<Incident>\<close> is the table \<^verbatim>\<open>incidents\<close>: its rows in insertion order
  and the counter behind \<^verbatim>\<open>@PrimaryGeneratedColumn()\<close>. The operations are the five
  the service calls. Where an entity leaves a column unset, an insert fills it from
  the entity declaration: the generated id, the creation date, \<^verbatim>\<open>'Open'\<close> for
  \<^verbatim>\<open>status\<close>, null for the nullable columns \<^verbatim>\<open>closedOn\<close> and \<^verbatim>\<open>totalTime\<close>. A
  column the entity sets is written as set.
\<close>

record Repository =
  rows :: "Incident list"
  auto_increment :: int

definition findOne :: "int \<Rightarrow> Repository \<Rightarrow> Incident option" where
  "findOne i repo = List.find (\<lambda>r. Incident.id r = i) (rows repo)"

definition find_order_id_DESC :: "Repository \<Rightarrow> Incident list" where
  "find_order_id_DESC repo = sort_key (\<lambda>r. - Incident.id r) (rows repo)"

text \<open>
  \<^verbatim>\<open>save\<close> of an entity with every column set, as one loaded by \<^verbatim>\<open>findOne\<close> is: the
  row with the entity's id is overwritten; when there is none, the entity is inserted
  under its id and the counter moves past it.
\<close>

definition save :: "Incident \<Rightarrow> Repository \<Rightarrow> Repository \<times> Incident" where
  "save incident repo =
     (if list_ex (\<lambda>r. Incident.id r = Incident.id incident) (rows repo)
      then (repo\<lparr>rows := map (\<lambda>r. if Incident.id r = Incident.id incident then incident else r)
                              (rows repo)\<rparr>, incident)
      else (repo\<lparr>rows := rows repo @ [incident],
                 auto_increment := max (auto_increment repo) (Incident.id incident + 1)\<rparr>,
            incident))"

text \<open>
  \<^verbatim>\<open>save\<close> of the entity that \<^verbatim>\<open>create\<close> builds is the same \<open>save\<close>, once the
  columns the entity leaves unset are settled. An entity without id gets the next
  generated id and is inserted, and so is an entity whose id no row has; unset columns
  take their defaults. An entity whose id a row has overwrites that row; unset columns
  keep the row's values. The result is the row as persisted.
\<close>

definition with_defaults :: "Date \<Rightarrow> int \<Rightarrow> DeepPartialIncident \<Rightarrow> Incident" where
  "with_defaults now i e =
     \<lparr>Incident.id = i,
      reportedBy = DeepPartialIncident.reportedBy e,
      assignedTo = DeepPartialIncident.assignedTo e,
      dateTime = DeepPartialIncident.dateTime e,
      description = DeepPartialIncident.description e,
      attachment = DeepPartialIncident.attachment e,
      status = (case DeepPartialIncident.status e of None \<Rightarrow> ''Open'' | Some s \<Rightarrow> s),
      closedOn = DeepPartialIncident.closedOn e,
      totalTime = DeepPartialIncident.totalTime e,
      createdAt = (case DeepPartialIncident.createdAt e of None \<Rightarrow> now | Some d \<Rightarrow> d)\<rparr>"

definition overwrite :: "Incident \<Rightarrow> DeepPartialIncident \<Rightarrow> Incident" where
  "overwrite row e =
     \<lparr>Incident.id = Incident.id row,
      reportedBy = DeepPartialIncident.reportedBy e,
      assignedTo = DeepPartialIncident.assignedTo e,
      dateTime = DeepPartialIncident.dateTime e,
      description = DeepPartialIncident.description e,
      attachment =
        (case DeepPartialIncident.attachment e of
           None \<Rightarrow> Incident.attachment row | Some a \<Rightarrow> Some a),
      status =
        (case DeepPartialIncident.status e of None \<Rightarrow> Incident.status row | Some s \<Rightarrow> s),
      closedOn =
        (case DeepPartialIncident.closedOn e of
           None \<Rightarrow> Incident.closedOn row | Some d \<Rightarrow> Some d),
      totalTime =
        (case DeepPartialIncident.totalTime e of
           None \<Rightarrow> Incident.totalTime row | Some t \<Rightarrow> Some t),
      createdAt =
        (case DeepPartialIncident.createdAt e of
           None \<Rightarrow> Incident.createdAt row | Some d \<Rightarrow> d)\<rparr>"

definition settle :: "Date \<Rightarrow> DeepPartialIncident \<Rightarrow> Repository \<Rightarrow> Incident" where
  "settle now e repo =
     (case DeepPartialIncident.id e of
        None \<Rightarrow> with_defaults now (auto_increment repo) e
      | Some i \<Rightarrow>
          (case findOne i repo of
             None \<Rightarrow> with_defaults now i e
           | Some row \<Rightarrow> overwrite row e))"

definition save_partial ::
  "Date \<Rightarrow> DeepPartialIncident \<Rightarrow> Repository \<Rightarrow> Repository \<times> Incident" where
  "save_partial now e repo = save (settle now e repo) repo"

text \<open>\<^verbatim>\<open>delete(id)\<close> returns the number of rows it removed (\<^verbatim>\<open>result.affected\<close>).\<close>

definition delete :: "int \<Rightarrow> Repository \<Rightarrow> Repository \<times> nat" where
  "delete i repo =
     (repo\<lparr>rows := filter (\<lambda>r. Incident.id r \<noteq> i) (rows repo)\<rparr>,
      length (filter (\<lambda>r. Incident.id r = i) (rows repo)))"

text \<open>
  What the primary key guarantees of a table: ids are pairwise distinct and were all
  handed out by the counter.
\<close>

definition primary_key :: "Repository \<Rightarrow> bool" where
  "primary_key repo \<longleftrightarrow>
     distinct (map Incident.id (rows repo)) \<and>
     list_all (\<lambda>r. Incident.id r < auto_increment repo) (rows repo)"

section \<open>IncidentsService\<close>

text \<open>
  Two functions of the runtime are parameters: \<open>parse\<close>, the time value that
  \<^verbatim>\<open>new Date(string)\<close> reads from a string (\<open>NaN\<close> when it cannot), and
  \<open>toLocaleString\<close>, which depends on the host's locale and time zone. The clock
  behind \<^verbatim>\<open>@CreateDateColumn()\<close> is the parameter \<open>now\<close>.
\<close>

definition not_found :: "int \<Rightarrow> error" where
  "not_found i = NotFoundException (''Incident with ID '' @ show_int i @ '' not found'')"

definition create ::
  "(string \<Rightarrow> number) \<Rightarrow> Date \<Rightarrow> CreateIncidentDto \<Rightarrow> Repository \<Rightarrow> Repository \<times> Incident" where
  "create parse now createIncidentDto repo =
     (let incident =
        \<lparr>DeepPartialIncident.reportedBy = CreateIncidentDto.reportedBy createIncidentDto,
         assignedTo = CreateIncidentDto.assignedTo createIncidentDto,
         dateTime = Date (parse (CreateIncidentDto.dateTime createIncidentDto)),
         description = CreateIncidentDto.description createIncidentDto,
         attachment = CreateIncidentDto.attachment createIncidentDto,
         id = CreateIncidentDto.id createIncidentDto,
         status = CreateIncidentDto.status createIncidentDto,
         closedOn = CreateIncidentDto.closedOn createIncidentDto,
         totalTime = CreateIncidentDto.totalTime createIncidentDto,
         createdAt = CreateIncidentDto.createdAt createIncidentDto\<rparr>
      in save_partial now incident repo)"

definition findAll :: "Repository \<Rightarrow> Incident list" where
  "findAll repo = find_order_id_DESC repo"

text \<open>
  \<^verbatim>\<open>if (updateIncidentDto.status)\<close> and \<^verbatim>\<open>if (updateIncidentDto.closedOn)\<close> test
  truthiness: they fail for a missing property and for the empty string.
\<close>

definition set_status :: "UpdateIncidentDto \<Rightarrow> Incident \<Rightarrow> Incident" where
  "set_status updateIncidentDto incident =
     (case UpdateIncidentDto.status updateIncidentDto of
        None \<Rightarrow> incident
      | Some s \<Rightarrow> if s = [] then incident else incident\<lparr>status := s\<rparr>)"

definition set_closed ::
  "(string \<Rightarrow> number) \<Rightarrow> UpdateIncidentDto \<Rightarrow> Incident \<Rightarrow> Incident" where
  "set_closed parse updateIncidentDto incident =
     (case UpdateIncidentDto.closedOn updateIncidentDto of
        None \<Rightarrow> incident
      | Some c \<Rightarrow>
          if c = [] then incident
          else
            (let start = Date (getTime (Incident.dateTime incident));
                 end = Date (parse c);
                 diffMs = number_minus (getTime end) (getTime start);
                 diffHours = Math_floor_div diffMs (1000 * 60 * 60);
                 diffDays = Math_floor_div diffHours 24
             in incident
                  \<lparr>totalTime :=
                     Some (if number_gt diffDays 0 then ToString diffDays @ '' days''
                           else ToString diffHours @ '' hours''),
                   closedOn := Some end\<rparr>))"

definition update ::
  "(string \<Rightarrow> number) \<Rightarrow> int \<Rightarrow> UpdateIncidentDto \<Rightarrow> Repository
     \<Rightarrow> Repository \<times> (error + Incident)" where
  "update parse i updateIncidentDto repo =
     (case findOne i repo of
        None \<Rightarrow> (repo, Inl (not_found i))
      | Some incident \<Rightarrow>
          (case save (set_closed parse updateIncidentDto (set_status updateIncidentDto incident)) repo of
             (repo', saved) \<Rightarrow> (repo', Inr saved)))"

definition remove :: "int \<Rightarrow> Repository \<Rightarrow> Repository \<times> (error + nat)" where
  "remove i repo =
     (case delete i repo of
        (repo', affected) \<Rightarrow>
          if affected = 0 then (repo', Inl (not_found i)) else (repo', Inr affected))"

text \<open>
  \<^verbatim>\<open>exportToCSV\<close>. A row is an array of mixed values, the id a number and the rest
  strings; the template literal \<^verbatim>\<open>`"${cell}"`\<close> turns each into text between two
  double quotes (character \<open>0x22\<close>). Lines are joined by the newline \<open>0x0A\<close>.
\<close>

datatype cell = NumberCell int | StringCell string

fun cell_text :: "cell \<Rightarrow> string" where
  "cell_text (NumberCell n) = show_int n"
| "cell_text (StringCell s) = s"

definition new_Date :: "Date \<Rightarrow> Date" where
  "new_Date d = Date (getTime d)"

definition headers :: "string list" where
  "headers = [''ID'', ''Reported By'', ''Assigned To'', ''Date & Time'', ''Description'',
              ''Status'', ''Closed On'', ''Total Time'']"

definition csv_cells :: "(Date \<Rightarrow> string) \<Rightarrow> Incident \<Rightarrow> cell list" where
  "csv_cells toLocaleString inc =
     [NumberCell (Incident.id inc),
      StringCell (Incident.reportedBy inc),
      StringCell (Incident.assignedTo inc),
      StringCell (toLocaleString (new_Date (Incident.dateTime inc))),
      StringCell (Incident.description inc),
      StringCell (Incident.status inc),
      StringCell (case Incident.closedOn inc of
                    None \<Rightarrow> []
                  | Some d \<Rightarrow> toLocaleString (new_Date d)),
      StringCell (case Incident.totalTime inc of
                    None \<Rightarrow> []
                  | Some t \<Rightarrow> if t = [] then [] else t)]"

definition quote_cell :: "cell \<Rightarrow> string" where
  "quote_cell c = [CHR 0x22] @ cell_text c @ [CHR 0x22]"

definition csv_line :: "cell list \<Rightarrow> string" where
  "csv_line row = join '','' (map quote_cell row)"

definition exportToCSV :: "(Date \<Rightarrow> string) \<Rightarrow> Repository \<Rightarrow> string" where
  "exportToCSV toLocaleString repo =
     (let incidents = findAll repo;
          table = map (csv_cells toLocaleString) incidents;
          csvContent = join [CHR 0x0A] (join '','' headers # map csv_line table)
      in csvContent)"

text \<open>The five operations behind one entry point, each returning the store it leaves.\<close>

datatype operation =
    Create CreateIncidentDto
  | FindAll
  | Update int UpdateIncidentDto
  | Remove int
  | ExportToCSV

datatype response =
    Created Incident
  | Listed "Incident list"
  | Updated Incident
  | Removed nat
  | Exported string

fun run ::
  "(string \<Rightarrow> number) \<Rightarrow> (Date \<Rightarrow> string) \<Rightarrow> Date \<Rightarrow> operation \<Rightarrow> Repository
     \<Rightarrow> Repository \<times> (error + response)" where
  "run parse toLocaleString now (Create dto) repo =
     (case create parse now dto repo of (repo', incident) \<Rightarrow> (repo', Inr (Created incident)))"
| "run parse toLocaleString now FindAll repo = (repo, Inr (Listed (findAll repo)))"
| "run parse toLocaleString now (Update i dto) repo =
     (case update parse i dto repo of
        (repo', Inl e) \<Rightarrow> (repo', Inl e)
      | (repo', Inr incident) \<Rightarrow> (repo', Inr (Updated incident)))"
| "run parse toLocaleString now (Remove i) repo =
     (case remove i repo of
        (repo', Inl e) \<Rightarrow> (repo', Inl e)
      | (repo', Inr affected) \<Rightarrow> (repo', Inr (Removed affected)))"
| "run parse toLocaleString now ExportToCSV repo =
     (repo, Inr (Exported (exportToCSV toLocaleString repo)))"

section \<open>A runtime and a store to evaluate on\<close>

text \<open>
  One instance of each parameter, for running the model on concrete requests.
  \<open>utc_parse\<close> reads the form \<^verbatim>\<open>YYYY-MM-DDTHH:mm:ss\<close> as a UTC time and is \<open>NaN\<close> on
  anything else; \<open>time_value_text\<close> prints a date as its time value.
\<close>

definition digit_of :: "char \<Rightarrow> int option" where
  "digit_of c =
     (let n = (of_char c :: int) in if 48 \<le> n \<and> n \<le> 57 then Some (n - 48) else None)"

fun digits_value :: "int \<Rightarrow> string \<Rightarrow> int option" where
  "digits_value acc [] = Some acc"
| "digits_value acc (c # cs) =
     (case digit_of c of None \<Rightarrow> None | Some d \<Rightarrow> digits_value (10 * acc + d) cs)"

definition field :: "string \<Rightarrow> nat \<Rightarrow> nat \<Rightarrow> int option" where
  "field s from count = digits_value 0 (take count (drop from s))"

definition days_from_civil :: "int \<Rightarrow> int \<Rightarrow> int \<Rightarrow> int" where
  "days_from_civil y m d =
     (let y' = (if m \<le> 2 then y - 1 else y);
          era = y' div 400;
          yoe = y' - era * 400;
          doy = (153 * ((m + 9) mod 12) + 2) div 5 + d - 1;
          doe = yoe * 365 + yoe div 4 - yoe div 100 + doy
      in era * 146097 + doe - 719468)"

definition utc_parse :: "string \<Rightarrow> number" where
  "utc_parse s =
     (if length s = 19 \<and> s ! 4 = CHR ''-'' \<and> s ! 7 = CHR ''-'' \<and> s ! 10 = CHR ''T''
         \<and> s ! 13 = CHR '':'' \<and> s ! 16 = CHR '':''
      then
        (case field s 0 4 of None \<Rightarrow> NaN | Some y \<Rightarrow>
         case field s 5 2 of None \<Rightarrow> NaN | Some m \<Rightarrow>
         case field s 8 2 of None \<Rightarrow> NaN | Some d \<Rightarrow>
         case field s 11 2 of None \<Rightarrow> NaN | Some h \<Rightarrow>
         case field s 14 2 of None \<Rightarrow> NaN | Some mi \<Rightarrow>
         case field s 17 2 of None \<Rightarrow> NaN | Some sec \<Rightarrow>
           if 1 \<le> m \<and> m \<le> 12 \<and> 1 \<le> d \<and> d \<le> 31 \<and> h \<le> 23 \<and> mi \<le> 59 \<and> sec \<le> 59
           then Finite (((days_from_civil y m d * 24 + h) * 60 + mi) * 60000 + sec * 1000)
           else NaN)
      else NaN)"

definition time_value_text :: "Date \<Rightarrow> string" where
  "time_value_text d = ToString (getTime d)"

definition clock0 :: Date where
  "clock0 = Date (Finite 1704070800000)"

definition empty_repo :: Repository where
  "empty_repo = \<lparr>rows = [], auto_increment = 1\<rparr>"

definition report0 :: CreateIncidentDto where
  "report0 =
     \<lparr>CreateIncidentDto.reportedBy = ''Asha'',
      assignedTo = ''Ravi'',
      dateTime = ''2024-01-01T00:00:00'',
      description = ''Printer says '' @ [CHR 0x22] @ ''offline'' @ [CHR 0x22],
      attachment = None,
      id = None,
      status = None,
      closedOn = None,
      totalTime = None,
      createdAt = None\<rparr>"

definition report1 :: CreateIncidentDto where
  "report1 =
     \<lparr>CreateIncidentDto.reportedBy = ''Mallory'',
      assignedTo = ''Ravi'',
      dateTime = ''2024-01-02T05:00:00'',
      description = ''Nothing to see'',
      attachment = None,
      id = Some 1,
      status = Some ''Closed'',
      closedOn = None,
      totalTime = None,
      createdAt = None\<rparr>"

definition incident0 :: Incident where
  "incident0 =
     \<lparr>Incident.id = 1,
      reportedBy = ''Asha'',
      assignedTo = ''Ravi'',
      dateTime = Date (Finite 1704067200000),
      description = ''Printer says '' @ [CHR 0x22] @ ''offline'' @ [CHR 0x22],
      attachment = None,
      status = ''Open'',
      closedOn = None,
      totalTime = None,
      createdAt = clock0\<rparr>"

definition repo0 :: Repository where
  "repo0 = \<lparr>rows = [incident0], auto_increment = 2\<rparr>"

section \<open>Reading and writing a row\<close>

lemma findOne_Some:
  "findOne i repo = Some r \<Longrightarrow> Incident.id r = i \<and> r \<in> set (rows repo)"
  by (auto simp: findOne_def find_Some_iff)

lemma id_set_status: "Incident.id (set_status dto r) = Incident.id r"
  by (simp add: set_status_def split: option.splits)

lemma id_set_closed: "Incident.id (set_closed parse dto r) = Incident.id r"
  by (simp add: set_closed_def Let_def split: option.splits)

lemma find_replaced:
  "List.find (\<lambda>r. Incident.id r = i) xs = Some old \<Longrightarrow> Incident.id new = i \<Longrightarrow>
   List.find (\<lambda>r. Incident.id r = i) (map (\<lambda>r. if Incident.id r = i then new else r) xs) = Some new"
  by (induction xs) (auto split: if_splits)

lemma save_existing:
  assumes "findOne i repo = Some old" and "Incident.id new = i"
  shows "\<exists>repo'. save new repo = (repo', new) \<and> findOne i repo' = Some new"
proof -
  from assms(1) have "list_ex (\<lambda>r. Incident.id r = i) (rows repo)"
    by (auto simp: list_ex_iff dest: findOne_Some)
  with assms(2) have "save new repo =
      (repo\<lparr>rows := map (\<lambda>r. if Incident.id r = i then new else r) (rows repo)\<rparr>, new)"
    by (simp add: save_def)
  moreover from assms have
    "findOne i (repo\<lparr>rows := map (\<lambda>r. if Incident.id r = i then new else r) (rows repo)\<rparr>)
       = Some new"
    by (simp add: findOne_def find_replaced)
  ultimately show ?thesis by blast
qed

lemma update_existing:
  assumes "findOne i repo = Some incident"
  shows "\<exists>repo'. update parse i dto repo =
           (repo', Inr (set_closed parse dto (set_status dto incident)))
         \<and> findOne i repo' = Some (set_closed parse dto (set_status dto incident))"
proof -
  let ?new = "set_closed parse dto (set_status dto incident)"
  from assms have "Incident.id ?new = i"
    by (simp add: id_set_closed id_set_status findOne_Some)
  with assms obtain repo' where "save ?new repo = (repo', ?new)"
    and "findOne i repo' = Some ?new"
    using save_existing by blast
  with assms show ?thesis
    by (simp add: update_def)
qed

lemma div_24_pos_iff: "(0 < (h::int) div 24) = (24 \<le> h)"
  by (simp add: pos_imp_zdiv_pos_iff)

lemma set_closed_supplied:
  assumes "UpdateIncidentDto.closedOn dto = Some c" and "c \<noteq> []"
    and "parse c = Finite t1" and "Incident.dateTime r = Date (Finite t0)"
  shows "Incident.closedOn (set_closed parse dto r) = Some (Date (Finite t1))"
    and "Incident.totalTime (set_closed parse dto r) =
           Some (if 24 \<le> (t1 - t0) div 3600000
                 then show_int ((t1 - t0) div 3600000 div 24) @ '' days''
                 else show_int ((t1 - t0) div 3600000) @ '' hours'')"
  using assms by (simp_all add: set_closed_def Let_def div_24_pos_iff)

lemma set_closed_absent:
  assumes "UpdateIncidentDto.closedOn dto = None \<or> UpdateIncidentDto.closedOn dto = Some []"
  shows "set_closed parse dto r = r"
  using assms by (auto simp: set_closed_def)

lemma set_status_frame:
  "Incident.dateTime (set_status dto r) = Incident.dateTime r"
  "Incident.closedOn (set_status dto r) = Incident.closedOn r"
  "Incident.totalTime (set_status dto r) = Incident.totalTime r"
  by (simp_all add: set_status_def split: option.splits)

lemma set_closed_status:
  "Incident.status (set_closed parse dto r) = Incident.status r"
  by (simp add: set_closed_def Let_def split: option.splits)

lemma set_status_supplied:
  "UpdateIncidentDto.status dto = Some s \<Longrightarrow>
   Incident.status (set_status dto r) = (if s = [] then Incident.status r else s)"
  by (simp add: set_status_def)

lemma findOne_None_iff:
  "findOne i repo = None \<longleftrightarrow> i \<notin> Incident.id ` set (rows repo)"
  by (auto simp: findOne_def find_None_iff)

lemma filter_no_match:
  "i \<notin> Incident.id ` set xs \<Longrightarrow> filter (\<lambda>r. Incident.id r = i) xs = []"
  by (induction xs) auto

lemma filter_all_match:
  "i \<notin> Incident.id ` set xs \<Longrightarrow> filter (\<lambda>r. Incident.id r \<noteq> i) xs = xs"
  by (induction xs) auto

lemma delete_none_affected:
  assumes "delete i repo = (repo', 0)"
  shows "repo' = repo"
proof -
  from assms have "filter (\<lambda>r. Incident.id r = i) (rows repo) = []"
    by (simp add: delete_def)
  then have "i \<notin> Incident.id ` set (rows repo)"
    by (auto simp: filter_empty_conv)
  then have "filter (\<lambda>r. Incident.id r \<noteq> i) (rows repo) = rows repo"
    by (rule filter_all_match)
  with assms show ?thesis
    by (simp add: delete_def)
qed

lemma update_error_store: "update parse i dto repo = (repo', Inl e) \<Longrightarrow> repo' = repo"
  by (auto simp: update_def split: option.splits prod.splits)

lemma remove_error_store: "remove i repo = (repo', Inl e) \<Longrightarrow> repo' = repo"
  by (auto simp: remove_def split: prod.splits if_splits dest: delete_none_affected)

lemma find_appended:
  "i \<notin> Incident.id ` set xs \<Longrightarrow> Incident.id r = i \<Longrightarrow>
   List.find (\<lambda>r. Incident.id r = i) (xs @ [r]) = Some r"
  by (induction xs) auto

lemma counter_is_fresh:
  "primary_key repo \<Longrightarrow> auto_increment repo \<notin> Incident.id ` set (rows repo)"
  by (auto simp: primary_key_def list_all_iff)

lemma show_int_negative: "h < 0 \<Longrightarrow> show_int h = CHR ''-'' # show_digits (- h)"
  by (simp add: show_int_def)

lemma hours_not_days: "x @ '' hours'' \<noteq> y @ '' days''"
proof
  assume "x @ '' hours'' = y @ '' days''"
  then have "rev (x @ '' hours'') = rev (y @ '' days'')" by simp
  then show False by simp
qed

section \<open>The primary key is kept\<close>

text \<open>
  The empty table respects its primary key and every operation of the service keeps
  it so: the stores the service can reach all do.
\<close>

lemma primary_key_ids:
  "primary_key repo \<longleftrightarrow>
     distinct (map Incident.id (rows repo)) \<and>
     (\<forall>k \<in> set (map Incident.id (rows repo)). k < auto_increment repo)"
  by (auto simp: primary_key_def list_all_iff)

lemma ids_replaced:
  "Incident.id new = i \<Longrightarrow>
   map Incident.id (map (\<lambda>r. if Incident.id r = i then new else r) xs) = map Incident.id xs"
  by (induction xs) auto

lemma primary_key_empty_repo: "primary_key empty_repo"
  by (simp add: primary_key_def empty_repo_def)

lemma save_fresh:
  assumes "Incident.id inc \<notin> Incident.id ` set (rows repo)"
  shows "save inc repo =
           (repo\<lparr>rows := rows repo @ [inc],
                 auto_increment := max (auto_increment repo) (Incident.id inc + 1)\<rparr>, inc)"
proof -
  have "\<not> list_ex (\<lambda>r. Incident.id r = Incident.id inc) (rows repo)"
  proof
    assume "list_ex (\<lambda>r. Incident.id r = Incident.id inc) (rows repo)"
    then obtain r where "r \<in> set (rows repo)" and "Incident.id r = Incident.id inc"
      by (auto simp: list_ex_iff)
    then have "Incident.id inc \<in> Incident.id ` set (rows repo)"
      by (metis imageI)
    with assms show False by simp
  qed
  then show ?thesis
    by (simp add: save_def)
qed

lemma primary_key_save:
  assumes "primary_key repo"
  shows "primary_key (fst (save inc repo))"
proof (cases "list_ex (\<lambda>r. Incident.id r = Incident.id inc) (rows repo)")
  case True
  then have "fst (save inc repo) =
      repo\<lparr>rows := map (\<lambda>r. if Incident.id r = Incident.id inc then inc else r) (rows repo)\<rparr>"
    by (simp add: save_def)
  then have "map Incident.id (rows (fst (save inc repo))) = map Incident.id (rows repo)"
    and "auto_increment (fst (save inc repo)) = auto_increment repo"
    by (simp_all add: ids_replaced del: map_map)
  with assms show ?thesis
    unfolding primary_key_ids by metis
next
  case False
  then have fresh: "Incident.id inc \<notin> Incident.id ` set (rows repo)"
    by (auto simp: list_ex_iff)
  then have "fst (save inc repo) =
      repo\<lparr>rows := rows repo @ [inc],
            auto_increment := max (auto_increment repo) (Incident.id inc + 1)\<rparr>"
    by (simp add: save_fresh)
  with assms fresh show ?thesis
    by (fastforce simp: primary_key_ids)
qed

lemma primary_key_create:
  assumes "primary_key repo"
  shows "primary_key (fst (create parse now dto repo))"
  using assms by (simp add: create_def save_partial_def Let_def primary_key_save)

lemma create_carried_status:
  assumes "CreateIncidentDto.id dto = None" and "CreateIncidentDto.status dto = Some s"
  shows "Incident.status (snd (create parse now dto repo)) = s"
proof -
  have "snd (save inc repo) = inc" for inc
    by (simp add: save_def)
  with assms show ?thesis
    by (simp add: create_def save_partial_def settle_def with_defaults_def Let_def)
qed

lemma primary_key_update:
  assumes "primary_key repo"
  shows "primary_key (fst (update parse i dto repo))"
proof (cases "findOne i repo")
  case None
  with assms show ?thesis by (simp add: update_def)
next
  case (Some incident)
  let ?new = "set_closed parse dto (set_status dto incident)"
  from Some have new: "Incident.id ?new = i"
    by (simp add: id_set_closed id_set_status findOne_Some)
  from Some have "list_ex (\<lambda>r. Incident.id r = i) (rows repo)"
    by (auto simp: list_ex_iff dest: findOne_Some)
  with new have "fst (update parse i dto repo) =
      repo\<lparr>rows := map (\<lambda>r. if Incident.id r = i then ?new else r) (rows repo)\<rparr>"
    using Some by (simp add: update_def save_def)
  then have "map Incident.id (rows (fst (update parse i dto repo))) = map Incident.id (rows repo)"
    and "auto_increment (fst (update parse i dto repo)) = auto_increment repo"
    using new by (simp_all add: ids_replaced del: map_map)
  with assms show ?thesis
    unfolding primary_key_ids by metis
qed

lemma primary_key_remove:
  assumes "primary_key repo"
  shows "primary_key (fst (remove i repo))"
proof -
  have "fst (remove i repo) = repo\<lparr>rows := filter (\<lambda>r. Incident.id r \<noteq> i) (rows repo)\<rparr>"
    by (simp add: remove_def delete_def)
  with assms show ?thesis
    by (auto simp: primary_key_ids distinct_map_filter)
qed

lemma primary_key_run:
  assumes "primary_key repo"
  shows "primary_key (fst (run parse toLocaleString now op repo))"
proof (cases op)
  case (Create dto)
  with primary_key_create [OF assms, of parse now dto] show ?thesis
    by (auto split: prod.splits)
next
  case (Update i dto)
  with primary_key_update [OF assms, of parse i dto] show ?thesis
    by (auto split: prod.splits sum.splits)
next
  case (Remove i)
  with primary_key_remove [OF assms, of i] show ?thesis
    by (auto split: prod.splits sum.splits)
qed (use assms in simp_all)

section \<open>Evaluating the sample runtime\<close>

lemma findOne_repo0: "findOne 1 repo0 = Some incident0"
  by (simp add: findOne_def repo0_def incident0_def)

lemma utc_parse_next_day: "utc_parse ''2024-01-02T05:00:00'' = Finite 1704171600000"
  by (simp add: utc_parse_def field_def digit_of_def days_from_civil_def)

lemma utc_parse_same_day: "utc_parse ''2024-01-01T05:00:00'' = Finite 1704085200000"
  by (simp add: utc_parse_def field_def digit_of_def days_from_civil_def)

lemma utc_parse_eve: "utc_parse ''2023-12-31T22:30:00'' = Finite 1704061800000"
  by (simp add: utc_parse_def field_def digit_of_def days_from_civil_def)

lemma show_int_digit: "0 \<le> n \<Longrightarrow> n < 10 \<Longrightarrow> show_int n = [digit_char n]"
  by (simp add: show_int_def show_digits.simps [of n])

lemma not_found_2: "not_found 2 = NotFoundException ''Incident with ID 2 not found''"
  by (simp add: not_found_def show_int_digit digit_char_def)

lemma run_remove_2: "run utc_parse time_value_text clock0 (Remove 2) repo0 =
    (fst (remove 2 repo0), Inl (NotFoundException ''Incident with ID 2 not found''))"
  by (simp add: remove_def delete_def repo0_def incident0_def not_found_2)

section \<open>The text of an export\<close>


lemma header_text:
  "join '','' headers =
     ''ID,Reported By,Assigned To,Date & Time,Description,Status,Closed On,Total Time''"
  by (simp add: headers_def)

lemma export_lines:
  "exportToCSV fmt repo =
     join [CHR 0x0A]
       (''ID,Reported By,Assigned To,Date & Time,Description,Status,Closed On,Total Time''
        # map (\<lambda>inc. csv_line (csv_cells fmt inc)) (findAll repo))"
  by (simp add: exportToCSV_def Let_def header_text o_def)

lemma csv_row_fields:
  "csv_line (csv_cells fmt inc) =
     join '',''
       (map (\<lambda>v. [CHR 0x22] @ v @ [CHR 0x22])
          [show_int (Incident.id inc),
           Incident.reportedBy inc,
           Incident.assignedTo inc,
           fmt (Incident.dateTime inc),
           Incident.description inc,
           Incident.status inc,
           (case Incident.closedOn inc of None \<Rightarrow> [] | Some d \<Rightarrow> fmt d),
           (case Incident.totalTime inc of None \<Rightarrow> [] | Some t \<Rightarrow> t)])"
  by (simp add: csv_line_def csv_cells_def quote_cell_def new_Date_def split: option.splits)

lemma findAll_same_rows:
  "length (findAll repo) = length (rows repo)" "set (findAll repo) = set (rows repo)"
  by (simp_all add: findAll_def find_order_id_DESC_def)

lemma count_quotes:
  "count_list (quote_cell c) (CHR 0x22) = 2 + count_list (cell_text c) (CHR 0x22)"
  by (simp add: quote_cell_def)

lemma incident0_line:
  \<open>csv_line (csv_cells time_value_text incident0) =
     ''"1","Asha","Ravi","1704067200000","Printer says "offline"","Open","",""''\<close>
proof -
  have "show_int 1704067200000 = ''1704067200000''" by code_simp
  then show ?thesis
    by (simp add: csv_row_fields incident0_def time_value_text_def show_int_digit digit_char_def)
qed

section \<open>Closing an incident\<close>

text \<open>
  C1. An update of an existing incident that supplies a closedOn timestamp (a non-empty
  string that the runtime reads as a date) persists that date and a total time computed
  from the whole hours \<open>H = floor ((closedOn - dateTime) / 1 hour)\<close>: \<open>H div 24\<close> followed
  by \<open>days\<close> when \<open>24 \<le> H\<close>, and \<open>H\<close> followed by \<open>hours\<close> otherwise.
\<close>

theorem closedOn_sets_totalTime:
  assumes "findOne i repo = Some incident"
    and "Incident.dateTime incident = Date (Finite t0)"
    and "UpdateIncidentDto.closedOn dto = Some c" and "c \<noteq> []"
    and "parse c = Finite t1"
  shows "\<exists>repo' saved.
           update parse i dto repo = (repo', Inr saved) \<and> findOne i repo' = Some saved
         \<and> Incident.closedOn saved = Some (Date (Finite t1))
         \<and> Incident.totalTime saved =
             Some (let H = (t1 - t0) div 3600000
                   in if 24 \<le> H then show_int (H div 24) @ '' days''
                      else show_int H @ '' hours'')"
proof -
  let ?saved = "set_closed parse dto (set_status dto incident)"
  from assms(1) obtain repo' where
    "update parse i dto repo = (repo', Inr ?saved)" and "findOne i repo' = Some ?saved"
    using update_existing by blast
  moreover from assms(2) have "Incident.dateTime (set_status dto incident) = Date (Finite t0)"
    by (simp add: set_status_frame)
  with assms(3-5) have "Incident.closedOn ?saved = Some (Date (Finite t1))"
    and "Incident.totalTime ?saved =
           Some (if 24 \<le> (t1 - t0) div 3600000
                 then show_int ((t1 - t0) div 3600000 div 24) @ '' days''
                 else show_int ((t1 - t0) div 3600000) @ '' hours'')"
    by (rule set_closed_supplied)+
  ultimately show ?thesis
    by (simp add: Let_def)
qed

text \<open>
  The two examples: reported at 2024-01-01T00:00:00, an incident closed at
  2024-01-02T05:00:00 took \<open>1 days\<close>, and one closed at 2024-01-01T05:00:00 took
  \<open>5 hours\<close>.
\<close>

theorem closedOn_sets_totalTime_witness:
  "findOne 1 repo0 = Some incident0
   \<and> Incident.dateTime incident0 = Date (Finite 1704067200000)
   \<and> utc_parse ''2024-01-02T05:00:00'' = Finite 1704171600000
   \<and> utc_parse ''2024-01-01T05:00:00'' = Finite 1704085200000
   \<and> (\<exists>repo' saved.
         update utc_parse 1
           \<lparr>UpdateIncidentDto.status = Some ''Closed'', closedOn = Some ''2024-01-02T05:00:00''\<rparr>
           repo0 = (repo', Inr saved)
       \<and> findOne 1 repo' = Some saved
       \<and> Incident.closedOn saved = Some (Date (Finite 1704171600000))
       \<and> Incident.totalTime saved = Some ''1 days'')
   \<and> (\<exists>repo' saved.
         update utc_parse 1
           \<lparr>UpdateIncidentDto.status = Some ''Closed'', closedOn = Some ''2024-01-01T05:00:00''\<rparr>
           repo0 = (repo', Inr saved)
       \<and> findOne 1 repo' = Some saved
       \<and> Incident.closedOn saved = Some (Date (Finite 1704085200000))
       \<and> Incident.totalTime saved = Some ''5 hours'')"
proof -
  have d: "Incident.dateTime incident0 = Date (Finite 1704067200000)"
    by (simp add: incident0_def)
  have "\<exists>repo' saved.
         update utc_parse 1
           \<lparr>UpdateIncidentDto.status = Some ''Closed'', closedOn = Some ''2024-01-02T05:00:00''\<rparr>
           repo0 = (repo', Inr saved)
       \<and> findOne 1 repo' = Some saved
       \<and> Incident.closedOn saved = Some (Date (Finite 1704171600000))
       \<and> Incident.totalTime saved = Some ''1 days''"
    using closedOn_sets_totalTime [where i = 1 and repo = repo0 and incident = incident0
        and ?t0.0 = 1704067200000 and c = "''2024-01-02T05:00:00''" and parse = utc_parse
        and ?t1.0 = 1704171600000
        and dto = "\<lparr>UpdateIncidentDto.status = Some ''Closed'',
                    closedOn = Some ''2024-01-02T05:00:00''\<rparr>"]
      findOne_repo0 d utc_parse_next_day
    by (simp add: show_int_digit digit_char_def)
  moreover have "\<exists>repo' saved.
         update utc_parse 1
           \<lparr>UpdateIncidentDto.status = Some ''Closed'', closedOn = Some ''2024-01-01T05:00:00''\<rparr>
           repo0 = (repo', Inr saved)
       \<and> findOne 1 repo' = Some saved
       \<and> Incident.closedOn saved = Some (Date (Finite 1704085200000))
       \<and> Incident.totalTime saved = Some ''5 hours''"
    using closedOn_sets_totalTime [where i = 1 and repo = repo0 and incident = incident0
        and ?t0.0 = 1704067200000 and c = "''2024-01-01T05:00:00''" and parse = utc_parse
        and ?t1.0 = 1704085200000
        and dto = "\<lparr>UpdateIncidentDto.status = Some ''Closed'',
                    closedOn = Some ''2024-01-01T05:00:00''\<rparr>"]
      findOne_repo0 d utc_parse_same_day
    by (simp add: show_int_digit digit_char_def)
  ultimately show ?thesis
    using findOne_repo0 d utc_parse_next_day utc_parse_same_day by blast
qed

text \<open>
  C2. An update of an existing incident whose request supplies no closedOn value (the
  property is missing or null, or is the empty string) persists the incident with its
  closedOn and totalTime as they were, whatever status the request carries.
\<close>

theorem no_closedOn_keeps_closure:
  assumes "findOne i repo = Some incident"
    and "UpdateIncidentDto.closedOn dto = None \<or> UpdateIncidentDto.closedOn dto = Some []"
  shows "\<exists>repo' saved.
           update parse i dto repo = (repo', Inr saved) \<and> findOne i repo' = Some saved
         \<and> Incident.closedOn saved = Incident.closedOn incident
         \<and> Incident.totalTime saved = Incident.totalTime incident"
proof -
  let ?saved = "set_status dto incident"
  from assms(2) have "set_closed parse dto ?saved = ?saved"
    by (rule set_closed_absent)
  with update_existing [OF assms(1), of parse dto] obtain repo' where
    "update parse i dto repo = (repo', Inr ?saved)" and "findOne i repo' = Some ?saved"
    by auto
  moreover have "Incident.closedOn ?saved = Incident.closedOn incident"
    and "Incident.totalTime ?saved = Incident.totalTime incident"
    by (simp_all add: set_status_frame)
  ultimately show ?thesis by blast
qed

text \<open>Marking the sample incident \<open>Closed\<close> without a closedOn leaves both fields null.\<close>

theorem no_closedOn_keeps_closure_witness:
  "findOne 1 repo0 = Some incident0
   \<and> (\<exists>repo' saved.
         update utc_parse 1 \<lparr>UpdateIncidentDto.status = Some ''Closed'', closedOn = None\<rparr> repo0
           = (repo', Inr saved)
       \<and> findOne 1 repo' = Some saved
       \<and> Incident.closedOn saved = None \<and> Incident.totalTime saved = None)"
  using no_closedOn_keeps_closure [where i = 1 and repo = repo0 and incident = incident0
      and parse = utc_parse
      and dto = "\<lparr>UpdateIncidentDto.status = Some ''Closed'', closedOn = None\<rparr>"]
    findOne_repo0
  by (simp add: incident0_def)

section \<open>Changing the status\<close>

text \<open>
  The guard \<^verbatim>\<open>if (updateIncidentDto.status)\<close> is a truthiness test, so a request whose
  status is the empty string changes nothing: the sample incident stays \<open>Open\<close>.
\<close>

theorem empty_status_counterexample:
  "findOne 1 repo0 = Some incident0
   \<and> update utc_parse 1 \<lparr>UpdateIncidentDto.status = Some '''', closedOn = None\<rparr> repo0
       = (repo0, Inr incident0)
   \<and> Incident.status incident0 = ''Open''
   \<and> Incident.status incident0 \<noteq> ''''"
  by (simp add: update_def findOne_def repo0_def incident0_def set_status_def set_closed_def
      save_def)

text \<open>
  C3, amended. An update of an existing incident whose request supplies a non-empty
  status string persists exactly that string as the status, whatever the old status
  was; a request whose status is the empty string leaves the status as it was.
\<close>

theorem status_replaced_when_nonempty:
  assumes "findOne i repo = Some incident"
    and "UpdateIncidentDto.status dto = Some s"
  shows "\<exists>repo' saved.
           update parse i dto repo = (repo', Inr saved) \<and> findOne i repo' = Some saved
         \<and> Incident.status saved = (if s = [] then Incident.status incident else s)"
proof -
  let ?saved = "set_closed parse dto (set_status dto incident)"
  from update_existing [OF assms(1), of parse dto] obtain repo' where
    "update parse i dto repo = (repo', Inr ?saved)" and "findOne i repo' = Some ?saved"
    by auto
  moreover from assms(2)
  have "Incident.status ?saved = (if s = [] then Incident.status incident else s)"
    by (simp add: set_closed_status set_status_supplied)
  ultimately show ?thesis by blast
qed

theorem status_replaced_when_nonempty_witness:
  "findOne 1 repo0 = Some incident0
   \<and> Incident.status incident0 = ''Open''
   \<and> (\<exists>repo' saved.
         update utc_parse 1 \<lparr>UpdateIncidentDto.status = Some ''Closed'', closedOn = None\<rparr> repo0
           = (repo', Inr saved)
       \<and> findOne 1 repo' = Some saved \<and> Incident.status saved = ''Closed'')
   \<and> (\<exists>repo' saved.
         update utc_parse 1 \<lparr>UpdateIncidentDto.status = Some '''', closedOn = None\<rparr> repo0
           = (repo', Inr saved)
       \<and> findOne 1 repo' = Some saved \<and> Incident.status saved = ''Open'')"
  using status_replaced_when_nonempty [where i = 1 and repo = repo0 and incident = incident0
      and parse = utc_parse and s = "''Closed''"
      and dto = "\<lparr>UpdateIncidentDto.status = Some ''Closed'', closedOn = None\<rparr>"]
    status_replaced_when_nonempty [where i = 1 and repo = repo0 and incident = incident0
      and parse = utc_parse and s = "''''"
      and dto = "\<lparr>UpdateIncidentDto.status = Some '''', closedOn = None\<rparr>"]
    findOne_repo0
  by (simp add: incident0_def)

section \<open>Missing records\<close>

text \<open>
  C4. When no record of the store has the id, \<open>update\<close> fails with the not-found
  error and so does \<open>remove\<close> (the service's delete).
\<close>

theorem missing_id_NotFound:
  assumes "i \<notin> Incident.id ` set (rows repo)"
  shows "snd (update parse i dto repo) = Inl (not_found i)
       \<and> snd (remove i repo) = Inl (not_found i)"
proof -
  from assms have "findOne i repo = None"
    by (simp add: findOne_None_iff)
  then have u: "snd (update parse i dto repo) = Inl (not_found i)"
    by (simp add: update_def)
  from assms have "snd (delete i repo) = 0"
    by (simp add: delete_def filter_no_match)
  then have "snd (remove i repo) = Inl (not_found i)"
    by (cases "delete i repo") (simp add: remove_def)
  with u show ?thesis by simp
qed

theorem missing_id_NotFound_witness:
  "2 \<notin> Incident.id ` set (rows repo0)
   \<and> snd (update utc_parse 2
            \<lparr>UpdateIncidentDto.status = Some ''Closed'', closedOn = None\<rparr> repo0)
       = Inl (NotFoundException ''Incident with ID 2 not found'')
   \<and> snd (remove 2 repo0) = Inl (NotFoundException ''Incident with ID 2 not found'')"
proof -
  have absent: "2 \<notin> Incident.id ` set (rows repo0)"
    by (simp add: repo0_def incident0_def)
  from missing_id_NotFound [OF absent, of utc_parse
      "\<lparr>UpdateIncidentDto.status = Some ''Closed'', closedOn = None\<rparr>"]
  show ?thesis
    using absent by (simp add: not_found_2)
qed

section \<open>Errors and the store\<close>

text \<open>
  C5. Whichever of the five operations runs, on whatever store: when it ends in an
  error, the store it leaves is the store it found.
\<close>

theorem error_leaves_store_unchanged:
  assumes "run parse toLocaleString now op repo = (repo', Inl e)"
  shows "repo' = repo"
proof (cases op)
  case (Create dto)
  with assms show ?thesis by (simp split: prod.splits)
next
  case FindAll
  with assms show ?thesis by simp
next
  case (Update i dto)
  with assms have "update parse i dto repo = (repo', Inl e)"
    by (simp split: prod.splits sum.splits)
  then show ?thesis by (rule update_error_store)
next
  case (Remove i)
  with assms have "remove i repo = (repo', Inl e)"
    by (simp split: prod.splits sum.splits)
  then show ?thesis by (rule remove_error_store)
next
  case ExportToCSV
  with assms show ?thesis by simp
qed

theorem error_leaves_store_unchanged_witness:
  "run utc_parse time_value_text clock0 (Remove 2) repo0 =
     (repo0, Inl (NotFoundException ''Incident with ID 2 not found''))"
  using error_leaves_store_unchanged [OF run_remove_2] run_remove_2 by simp

section \<open>Creating an incident\<close>

text \<open>
  \<^verbatim>\<open>create\<close> spreads the whole request into the entity, so a request that carries
  \<^verbatim>\<open>id: 1\<close> and \<^verbatim>\<open>status: 'Closed'\<close> beside its four non-empty required properties
  comes back with status \<open>Closed\<close> under the id 1, which the store already holds.
\<close>

theorem create_carried_id_status_counterexample:
  "CreateIncidentDto.reportedBy report1 \<noteq> []
   \<and> CreateIncidentDto.assignedTo report1 \<noteq> []
   \<and> CreateIncidentDto.dateTime report1 \<noteq> []
   \<and> CreateIncidentDto.description report1 \<noteq> []
   \<and> primary_key repo0
   \<and> Incident.status (snd (create utc_parse clock0 report1 repo0)) = ''Closed''
   \<and> Incident.id (snd (create utc_parse clock0 report1 repo0)) = 1
   \<and> 1 \<in> Incident.id ` set (rows repo0)"
  by (simp add: create_def save_partial_def settle_def overwrite_def save_def findOne_def
      report1_def repo0_def incident0_def primary_key_def)

text \<open>
  C6, amended. On a store that respects its primary key, \<open>create\<close> returns for
  every request that carries no id, status, closedOn or totalTime property a record
  with status \<open>Open\<close>, closedOn and totalTime null, and an id that no record of the
  store had; the record is in the new store, which again respects the key.
\<close>

theorem create_defaults_and_fresh_id:
  assumes "primary_key repo"
    and "CreateIncidentDto.id dto = None"
    and "CreateIncidentDto.status dto = None"
    and "CreateIncidentDto.closedOn dto = None"
    and "CreateIncidentDto.totalTime dto = None"
  shows "\<exists>repo' incident.
           create parse now dto repo = (repo', incident)
         \<and> Incident.status incident = ''Open''
         \<and> Incident.closedOn incident = None
         \<and> Incident.totalTime incident = None
         \<and> Incident.id incident \<notin> Incident.id ` set (rows repo)
         \<and> findOne (Incident.id incident) repo' = Some incident
         \<and> primary_key repo'"
proof -
  let ?entity =
    "\<lparr>DeepPartialIncident.reportedBy = CreateIncidentDto.reportedBy dto,
      assignedTo = CreateIncidentDto.assignedTo dto,
      dateTime = Date (parse (CreateIncidentDto.dateTime dto)),
      description = CreateIncidentDto.description dto,
      attachment = CreateIncidentDto.attachment dto,
      id = CreateIncidentDto.id dto,
      status = CreateIncidentDto.status dto,
      closedOn = CreateIncidentDto.closedOn dto,
      totalTime = CreateIncidentDto.totalTime dto,
      createdAt = CreateIncidentDto.createdAt dto\<rparr>"
  let ?incident = "with_defaults now (auto_increment repo) ?entity"
  let ?repo' = "repo\<lparr>rows := rows repo @ [?incident],
                     auto_increment := max (auto_increment repo) (Incident.id ?incident + 1)\<rparr>"
  have generated: "Incident.id ?incident = auto_increment repo"
    by (simp add: with_defaults_def)
  from assms(1) have "auto_increment repo \<notin> Incident.id ` set (rows repo)"
    by (rule counter_is_fresh)
  with generated have fresh: "Incident.id ?incident \<notin> Incident.id ` set (rows repo)"
    by simp
  from assms(2) have "create parse now dto repo = save ?incident repo"
    by (simp add: create_def save_partial_def settle_def Let_def)
  with save_fresh [OF fresh] have created: "create parse now dto repo = (?repo', ?incident)"
    by simp
  from assms(3-5) have defaults: "Incident.status ?incident = ''Open''"
    "Incident.closedOn ?incident = None" "Incident.totalTime ?incident = None"
    by (simp_all add: with_defaults_def)
  from fresh have kept: "findOne (Incident.id ?incident) ?repo' = Some ?incident"
    by (simp add: findOne_def find_appended)
  from primary_key_create [OF assms(1), of parse now dto] created
  have "primary_key ?repo'"
    by simp
  with created defaults fresh kept show ?thesis
    by blast
qed

theorem create_defaults_and_fresh_id_witness:
  "primary_key repo0
   \<and> CreateIncidentDto.id report0 = None
   \<and> CreateIncidentDto.status report0 = None
   \<and> CreateIncidentDto.closedOn report0 = None
   \<and> CreateIncidentDto.totalTime report0 = None
   \<and> (\<exists>repo' incident.
         create utc_parse clock0 report0 repo0 = (repo', incident)
       \<and> Incident.status incident = ''Open''
       \<and> Incident.closedOn incident = None
       \<and> Incident.totalTime incident = None
       \<and> Incident.id incident \<notin> Incident.id ` set (rows repo0)
       \<and> findOne (Incident.id incident) repo' = Some incident
       \<and> primary_key repo')"
proof -
  have pk: "primary_key repo0"
    by (simp add: primary_key_def repo0_def incident0_def)
  have plain: "CreateIncidentDto.id report0 = None" "CreateIncidentDto.status report0 = None"
    "CreateIncidentDto.closedOn report0 = None" "CreateIncidentDto.totalTime report0 = None"
    by (simp_all add: report0_def)
  from create_defaults_and_fresh_id [OF pk plain, of utc_parse clock0] pk plain
  show ?thesis by simp
qed

section \<open>CSV export\<close>

text \<open>
  C7. The export of a store without records is the header row alone. The export of
  any store is the header row and one data row per record, joined by newlines; a data
  row is eight fields joined by commas, each between double quotes, in the order id,
  reportedBy, assignedTo, dateTime, description, status, closedOn, totalTime, where a
  null closedOn or totalTime is the empty string.
\<close>

theorem export_header_and_rows:
  "exportToCSV fmt (repo\<lparr>rows := []\<rparr>) =
     ''ID,Reported By,Assigned To,Date & Time,Description,Status,Closed On,Total Time''
   \<and> exportToCSV fmt repo =
     join [CHR 0x0A]
       (''ID,Reported By,Assigned To,Date & Time,Description,Status,Closed On,Total Time''
        # map (\<lambda>inc. join '',''
                 (map (\<lambda>v. [CHR 0x22] @ v @ [CHR 0x22])
                    [show_int (Incident.id inc),
                     Incident.reportedBy inc,
                     Incident.assignedTo inc,
                     fmt (Incident.dateTime inc),
                     Incident.description inc,
                     Incident.status inc,
                     (case Incident.closedOn inc of None \<Rightarrow> [] | Some d \<Rightarrow> fmt d),
                     (case Incident.totalTime inc of None \<Rightarrow> [] | Some t \<Rightarrow> t)]))
            (findAll repo))
   \<and> length (csv_cells fmt inc) = 8
   \<and> length (findAll repo) = length (rows repo)
   \<and> set (findAll repo) = set (rows repo)"
proof -
  have "exportToCSV fmt (repo\<lparr>rows := []\<rparr>) =
     ''ID,Reported By,Assigned To,Date & Time,Description,Status,Closed On,Total Time''"
    by (simp add: export_lines findAll_def find_order_id_DESC_def)
  moreover have "exportToCSV fmt repo =
     join [CHR 0x0A]
       (''ID,Reported By,Assigned To,Date & Time,Description,Status,Closed On,Total Time''
        # map (\<lambda>inc. join '',''
                 (map (\<lambda>v. [CHR 0x22] @ v @ [CHR 0x22])
                    [show_int (Incident.id inc),
                     Incident.reportedBy inc,
                     Incident.assignedTo inc,
                     fmt (Incident.dateTime inc),
                     Incident.description inc,
                     Incident.status inc,
                     (case Incident.closedOn inc of None \<Rightarrow> [] | Some d \<Rightarrow> fmt d),
                     (case Incident.totalTime inc of None \<Rightarrow> [] | Some t \<Rightarrow> t)]))
            (findAll repo))"
    by (simp only: export_lines csv_row_fields)
  moreover have "length (csv_cells fmt inc) = 8"
    by (simp add: csv_cells_def)
  ultimately show ?thesis
    by (simp only: findAll_same_rows simp_thms)
qed

text \<open>
  C8. Every cell is emitted as its text between one leading and one trailing double
  quote, whatever the text is, and no quote inside the text is escaped: the emitted
  field has exactly two more quotes than the value, and a data row is the values
  themselves between \<^verbatim>\<open>","\<close> separators. The sample incident, whose description
  contains two double quotes, is exported with both as they are.
\<close>

theorem fields_quoted_without_escaping:
  \<open>quote_cell c = [CHR 0x22] @ cell_text c @ [CHR 0x22]
   \<and> count_list (quote_cell c) (CHR 0x22) = 2 + count_list (cell_text c) (CHR 0x22)
   \<and> csv_line (csv_cells fmt inc) =
       ''"'' @ show_int (Incident.id inc) @ ''","'' @ Incident.reportedBy inc
       @ ''","'' @ Incident.assignedTo inc @ ''","'' @ fmt (Incident.dateTime inc)
       @ ''","'' @ Incident.description inc @ ''","'' @ Incident.status inc
       @ ''","'' @ (case Incident.closedOn inc of None \<Rightarrow> [] | Some d \<Rightarrow> fmt d)
       @ ''","'' @ (case Incident.totalTime inc of None \<Rightarrow> [] | Some t \<Rightarrow> t) @ ''"''
   \<and> Incident.description incident0 = ''Printer says "offline"''
   \<and> exportToCSV time_value_text repo0 =
       ''ID,Reported By,Assigned To,Date & Time,Description,Status,Closed On,Total Time''
       @ [CHR 0x0A]
       @ ''"1","Asha","Ravi","1704067200000","Printer says "offline"","Open","",""''\<close>
proof -
  have "exportToCSV time_value_text repo0 =
       ''ID,Reported By,Assigned To,Date & Time,Description,Status,Closed On,Total Time''
       @ [CHR 0x0A] @ csv_line (csv_cells time_value_text incident0)"
    by (simp add: export_lines findAll_def find_order_id_DESC_def repo0_def)
  then have sample: \<open>exportToCSV time_value_text repo0 =
       ''ID,Reported By,Assigned To,Date & Time,Description,Status,Closed On,Total Time''
       @ [CHR 0x0A]
       @ ''"1","Asha","Ravi","1704067200000","Printer says "offline"","Open","",""''\<close>
    by (simp only: incident0_line)
  have embedded: \<open>Incident.description incident0 = ''Printer says "offline"''\<close>
    by (simp add: incident0_def)
  have line: \<open>csv_line (csv_cells fmt inc) =
       ''"'' @ show_int (Incident.id inc) @ ''","'' @ Incident.reportedBy inc
       @ ''","'' @ Incident.assignedTo inc @ ''","'' @ fmt (Incident.dateTime inc)
       @ ''","'' @ Incident.description inc @ ''","'' @ Incident.status inc
       @ ''","'' @ (case Incident.closedOn inc of None \<Rightarrow> [] | Some d \<Rightarrow> fmt d)
       @ ''","'' @ (case Incident.totalTime inc of None \<Rightarrow> [] | Some t \<Rightarrow> t) @ ''"''\<close>
    by (simp add: csv_row_fields)
  have "quote_cell c = [CHR 0x22] @ cell_text c @ [CHR 0x22]"
    by (simp add: quote_cell_def)
  with count_quotes [of c] line embedded sample show ?thesis
    by (intro conjI)
qed


section \<open>Closing before the report time\<close>

text \<open>
  C10. An update of an existing incident that supplies a closedOn timestamp strictly
  earlier than the incident's dateTime succeeds; the whole hours \<open>H\<close> are negative and
  the total time is \<open>H\<close>, written with its minus sign, followed by \<open>hours\<close>, never a
  number of days.
\<close>

theorem earlier_closedOn_negative_hours:
  assumes "findOne i repo = Some incident"
    and "Incident.dateTime incident = Date (Finite t0)"
    and "UpdateIncidentDto.closedOn dto = Some c" and "c \<noteq> []"
    and "parse c = Finite t1"
    and "t1 < t0"
  shows "\<exists>repo' saved.
           update parse i dto repo = (repo', Inr saved) \<and> findOne i repo' = Some saved
         \<and> (t1 - t0) div 3600000 < 0
         \<and> Incident.totalTime saved =
             Some (CHR ''-'' # show_digits (- ((t1 - t0) div 3600000)) @ '' hours'')
         \<and> (\<forall>d. Incident.totalTime saved \<noteq> Some (d @ '' days''))"
proof -
  let ?H = "(t1 - t0) div 3600000"
  let ?saved = "set_closed parse dto (set_status dto incident)"
  from assms(6) have neg: "?H < 0"
    by (simp add: div_neg_pos_less0)
  from assms(1) obtain repo' where
    u: "update parse i dto repo = (repo', Inr ?saved)" "findOne i repo' = Some ?saved"
    using update_existing by blast
  from assms(2) have "Incident.dateTime (set_status dto incident) = Date (Finite t0)"
    by (simp add: set_status_frame)
  with assms(3-5) have "Incident.totalTime ?saved =
           Some (if 24 \<le> ?H then show_int (?H div 24) @ '' days''
                 else show_int ?H @ '' hours'')"
    by (rule set_closed_supplied)
  with neg have t: "Incident.totalTime ?saved = Some (show_int ?H @ '' hours'')"
    by simp
  with neg have "Incident.totalTime ?saved = Some (CHR ''-'' # show_digits (- ?H) @ '' hours'')"
    by (simp add: show_int_negative)
  moreover from t have "\<forall>d. Incident.totalTime ?saved \<noteq> Some (d @ '' days'')"
    by (simp add: hours_not_days)
  ultimately show ?thesis
    using u neg by blast
qed

theorem earlier_closedOn_negative_hours_witness:
  "findOne 1 repo0 = Some incident0
   \<and> utc_parse ''2023-12-31T22:30:00'' = Finite 1704061800000
   \<and> (1704061800000::int) < 1704067200000
   \<and> (\<exists>repo' saved.
         update utc_parse 1
           \<lparr>UpdateIncidentDto.status = Some ''Closed'', closedOn = Some ''2023-12-31T22:30:00''\<rparr>
           repo0 = (repo', Inr saved)
       \<and> findOne 1 repo' = Some saved \<and> Incident.totalTime saved = Some ''-2 hours'')"
proof -
  have d: "Incident.dateTime incident0 = Date (Finite 1704067200000)"
    by (simp add: incident0_def)
  have digits: "show_digits 2 = ''2''"
    by (simp add: show_digits.simps [of 2] digit_char_def)
  from earlier_closedOn_negative_hours [where i = 1 and repo = repo0 and incident = incident0
      and ?t0.0 = 1704067200000 and c = "''2023-12-31T22:30:00''" and parse = utc_parse
      and ?t1.0 = 1704061800000
      and dto = "\<lparr>UpdateIncidentDto.status = Some ''Closed'',
                  closedOn = Some ''2023-12-31T22:30:00''\<rparr>"]
    findOne_repo0 d utc_parse_eve
  have "\<exists>repo' saved.
         update utc_parse 1
           \<lparr>UpdateIncidentDto.status = Some ''Closed'', closedOn = Some ''2023-12-31T22:30:00''\<rparr>
           repo0 = (repo', Inr saved)
       \<and> findOne 1 repo' = Some saved \<and> Incident.totalTime saved = Some ''-2 hours''"
    by (simp add: digits) blast
  with findOne_repo0 utc_parse_eve show ?thesis by simp
qed

end
